theory Spec2Isabelle
  imports Complex_Main
begin

section \<open>JavaScript values of the latency statistics\<close>

text \<open>
  The numbers of the program are JavaScript numbers. Following the specification's data
  model (latencies and statistics are real numbers) a finite number is a real, so rounding
  of IEEE doubles is abstracted away. The two non-numeric results the code can produce are
  kept as values of their own: \<open>undefined\<close> (an array read outside the array, a missing
  property) and \<open>NaN\<close> (arithmetic on \<open>undefined\<close>, and \<open>0 / 0\<close>).
\<close>

datatype jsval = Num real | NaN | Undefined

text \<open>\<open>a * b\<close> and \<open>a + b\<close> on these values: \<open>undefined\<close> converts to \<open>NaN\<close>, and \<open>NaN\<close>
  propagates.\<close>

fun js_mul :: "jsval \<Rightarrow> jsval \<Rightarrow> jsval" where
  "js_mul (Num a) (Num b) = Num (a * b)"
| "js_mul _ _ = NaN"

fun js_add :: "jsval \<Rightarrow> jsval \<Rightarrow> jsval" where
  "js_add (Num a) (Num b) = Num (a + b)"
| "js_add _ _ = NaN"

text \<open>\<open>a > b\<close> and \<open>a <= b\<close>: every comparison with \<open>NaN\<close> or \<open>undefined\<close> is false.\<close>

fun js_gt :: "jsval \<Rightarrow> jsval \<Rightarrow> bool" where
  "js_gt (Num a) (Num b) = (a > b)"
| "js_gt _ _ = False"


text \<open>\<open>xs[i]\<close> for an array of numbers and an integral index: the element when
  \<open>0 \<le> i < xs.length\<close>, and \<open>undefined\<close> otherwise (JavaScript neither raises nor wraps).\<close>

definition js_index :: "real list \<Rightarrow> int \<Rightarrow> jsval" where
  "js_index xs i = (if 0 \<le> i \<and> i < int (length xs) then Num (xs ! nat i) else Undefined)"

section \<open>The percentile estimator\<close>

text \<open>\<open>percentile(sortedValues, p)\<close> of \<open>index.js\<close>, statement by statement.\<close>

definition percentile :: "real list \<Rightarrow> real \<Rightarrow> jsval" where
  "percentile sortedValues p =
     (if length sortedValues = 0 then Num 0
      else
        let index = (p / 100) * (real (length sortedValues) - 1);
            lower = \<lfloor>index\<rfloor>;
            upper = \<lceil>index\<rceil>
        in if lower = upper then js_index sortedValues lower
           else
             let weight = index - of_int lower
             in js_add (js_mul (js_index sortedValues lower) (Num (1 - weight)))
                       (js_mul (js_index sortedValues upper) (Num weight)))"



section \<open>The sample reducer and the measurement driver\<close>

text \<open>The object \<open>measureRoute\<close> returns. The fields \<open>min\<close> and \<open>max\<close> are named
  \<open>min_field\<close> and \<open>max_field\<close> here.\<close>

record measurements =
  p50 :: jsval
  p75 :: jsval
  p90 :: jsval
  p95 :: jsval
  p99 :: jsval
  min_field :: jsval
  max_field :: jsval
  mean :: jsval
  median :: jsval
  count :: jsval

text \<open>\<open>xs.at(i)\<close>: a negative index counts from the end; outside the array the result is
  \<open>undefined\<close>.\<close>

definition js_at :: "real list \<Rightarrow> int \<Rightarrow> jsval" where
  "js_at xs i = js_index xs (if 0 \<le> i then i else int (length xs) + i)"

text \<open>
  The statements of \<open>measureRoute\<close> after its loop, as a function of the collected
  latencies: \<open>[...latencies].sort((a, b) => a - b)\<close> is the ascending sort, and
  \<open>sorted.reduce((a, b) => a + b, 0)\<close> is a left fold from \<open>0\<close>. The division
  \<open>sum / sorted.length\<close> divides by zero only for the empty array, where the sum is the
  fold's initial value \<open>0\<close> and \<open>0 / 0\<close> is \<open>NaN\<close>.
\<close>

definition statistics :: "real list \<Rightarrow> measurements" where
  "statistics latencies =
     (let sorted_values = sort latencies;
          total = foldl (+) 0 sorted_values
      in \<lparr> p50 = percentile sorted_values 50,
           p75 = percentile sorted_values 75,
           p90 = percentile sorted_values 90,
           p95 = percentile sorted_values 95,
           p99 = percentile sorted_values 99,
           min_field = js_index sorted_values 0,
           max_field = js_at sorted_values (- 1),
           mean = (if length sorted_values = 0 then NaN
                   else Num (total / real (length sorted_values))),
           median = percentile sorted_values 50,
           count = Num (real (length sorted_values)) \<rparr>)"

text \<open>
  The network and the clock are the environment of the driver: the \<open>k\<close>-th request issued
  (counting from \<open>0\<close>) ends with the promise of \<open>fetch\<close> fulfilled or rejected, after some
  elapsed time.
\<close>

datatype fetch_outcome = Fulfilled | Rejected

type_synonym network = "nat \<Rightarrow> fetch_outcome \<times> real"

text \<open>\<open>measureSingleRequest\<close>: the \<open>catch\<close> block is empty, so a rejected \<open>fetch\<close> falls
  through to the same \<open>return performance.now() - start\<close>.\<close>

definition measureSingleRequest :: "fetch_outcome \<times> real \<Rightarrow> real" where
  "measureSingleRequest response =
     (case fst response of Fulfilled \<Rightarrow> snd response | Rejected \<Rightarrow> snd response)"

text \<open>The inner loop \<open>for (let index = 0; index < batchSize; index++)\<close>; \<open>k\<close> counts the
  requests issued so far.\<close>

function batch_loop :: "network \<Rightarrow> real \<Rightarrow> nat \<Rightarrow> nat \<Rightarrow> real list \<Rightarrow> real list" where
  "batch_loop net batchSize index k promises =
     (if real index < batchSize
      then batch_loop net batchSize (index + 1) (k + 1)
             (promises @ [measureSingleRequest (net k)])
      else promises)"
  by pat_completeness auto
termination
  by (relation "measure (\<lambda>(net, batchSize, index, k, promises). nat \<lceil>batchSize\<rceil> - index)")
     (auto, linarith)

text \<open>The outer loop \<open>for (let i = 0; i < batches; i++)\<close>, for a finite number of
  batches. \<open>Promise.all\<close> gives the results in the order of the promises.\<close>

function batches_loop ::
    "network \<Rightarrow> real \<Rightarrow> real \<Rightarrow> int \<Rightarrow> nat \<Rightarrow> nat \<Rightarrow> real list \<Rightarrow> real list" where
  "batches_loop net requestCount concurrency batches i k latencies =
     (if int i < batches
      then
        let batchSize = min concurrency (requestCount - real i * concurrency);
            results = batch_loop net batchSize 0 k []
        in batches_loop net requestCount concurrency batches (i + 1) (k + length results)
             (latencies @ results)
      else latencies)"
  by pat_completeness auto
termination
  by (relation "measure (\<lambda>(net, requestCount, concurrency, batches, i, k, latencies).
                   nat batches - i)") auto

text \<open>The options \<open>method\<close>, \<open>headers\<close> and \<open>body\<close> only reach \<open>fetch\<close>; the two that
  drive the loop are kept, each absent (\<open>None\<close>) or a finite number, whole or not.\<close>

record measure_options =
  requests :: "real option"
  concurrency :: "real option"

text \<open>
  \<open>measureRoute\<close>. With \<open>concurrency = 0\<close> the quotient \<open>requestCount / concurrency\<close> is
  not a finite number: it is \<open>Infinity\<close> for a positive \<open>requestCount\<close>, and the loop
  never ends (the result \<open>None\<close>); it is \<open>NaN\<close> or \<open>-Infinity\<close> otherwise, and the loop
  body never runs.
\<close>

definition measureRoute :: "network \<Rightarrow> measure_options \<Rightarrow> measurements option" where
  "measureRoute net options =
     (let requestCount = (case requests options of None \<Rightarrow> 100 | Some r \<Rightarrow> r);
          concurrency = (case concurrency options of None \<Rightarrow> 10 | Some c \<Rightarrow> c)
      in if concurrency = 0
         then (if 0 < requestCount then None else Some (statistics []))
         else
           let batches = \<lceil>requestCount / concurrency\<rceil>
           in Some (statistics (batches_loop net requestCount concurrency batches 0 0 [])))"

section \<open>The budget comparator\<close>

record violation =
  metric :: string
  actual :: jsval
  limit :: real

record budget_check_result =
  passed :: bool
  violations :: "violation list"

text \<open>The properties of a measurements object, and the read \<open>measurements[metric]\<close>: a
  name that is not a property reads as \<open>undefined\<close>. (A name inherited from
  \<open>Object.prototype\<close> reads as a function or an object, which compares as \<open>NaN\<close>; like
  \<open>undefined\<close> it never gives a violation.)\<close>

definition measurement_fields :: "(string \<times> (measurements \<Rightarrow> jsval)) list" where
  "measurement_fields =
     [(''p50'', p50), (''p75'', p75), (''p90'', p90), (''p95'', p95), (''p99'', p99),
      (''min'', min_field), (''max'', max_field), (''mean'', mean), (''median'', median),
      (''count'', count)]"

definition get_metric :: "measurements \<Rightarrow> string \<Rightarrow> jsval" where
  "get_metric m name =
     (case map_of measurement_fields name of None \<Rightarrow> Undefined | Some field \<Rightarrow> field m)"

text \<open>The loop of \<open>checkBudget\<close> over \<open>Object.entries(budget)\<close>: the budget is the list of
  its entries in iteration order (for names that are not array indices, as all metric
  names are, the order of insertion); \<open>violations.push\<close> appends.\<close>

fun checkBudget_loop :: "measurements \<Rightarrow> (string \<times> real) list \<Rightarrow> violation list \<Rightarrow> violation list" where
  "checkBudget_loop m [] vs = vs"
| "checkBudget_loop m ((name, lmt) # entries) vs =
     (let act = get_metric m name
      in if act \<noteq> Undefined \<and> js_gt act (Num lmt)
         then checkBudget_loop m entries (vs @ [\<lparr> metric = name, actual = act, limit = lmt \<rparr>])
         else checkBudget_loop m entries vs)"

definition checkBudget :: "measurements \<Rightarrow> (string \<times> real) list \<Rightarrow> budget_check_result" where
  "checkBudget m budget =
     (let vs = checkBudget_loop m budget []
      in \<lparr> passed = (length vs = 0), violations = vs \<rparr>)"

section \<open>Budget definitions on the heap\<close>

text \<open>
  \<open>defineBudget\<close> is about object identity, so objects live in a store. An address is a
  position in the store; an object is the list of its own properties in order; a property
  holds a number or a reference to another object.
\<close>

datatype hval = HNum real | HRef nat

type_synonym obj = "(string \<times> hval) list"

type_synonym heap = "obj list"

text \<open>\<open>o[k] = v\<close> on one object: an existing property keeps its place, a new one goes
  last.\<close>

fun put_prop :: "obj \<Rightarrow> string \<Rightarrow> hval \<Rightarrow> obj" where
  "put_prop [] k v = [(k, v)]"
| "put_prop ((k', v') # ps) k v =
     (if k' = k then (k, v) # ps else (k', v') # put_prop ps k v)"

text \<open>Reading and writing a property of the object at an address; a dangling address has
  no object.\<close>

definition heap_read :: "heap \<Rightarrow> nat \<Rightarrow> string \<Rightarrow> hval option" where
  "heap_read h a k = (if a < length h then map_of (h ! a) k else None)"

definition heap_write :: "heap \<Rightarrow> nat \<Rightarrow> string \<Rightarrow> hval \<Rightarrow> heap" where
  "heap_write h a k v = (if a < length h then h[a := put_prop (h ! a) k v] else h)"

text \<open>\<open>defineBudget\<close>: the spread \<open>{...budgets}\<close> allocates one new object and copies the
  own properties of \<open>budgets\<close> into it, each value as it is (a reference stays a
  reference). The result is the new address and the new store.\<close>

definition defineBudget :: "heap \<Rightarrow> nat \<Rightarrow> (nat \<times> heap) option" where
  "defineBudget h budgets =
     (if budgets < length h then Some (length h, h @ [h ! budgets]) else None)"

text \<open>The expressions \<open>o[k1][k2]\<close> and \<open>o[k1][k2] = v\<close>: a read and a write through
  the object that the property \<open>k1\<close> of \<open>o\<close> refers to; the result is \<open>None\<close> where
  \<open>o[k1]\<close> is not a reference to an object.\<close>

definition nested_read :: "heap \<Rightarrow> nat \<Rightarrow> string \<Rightarrow> string \<Rightarrow> hval option" where
  "nested_read h a k1 k2 =
     (case heap_read h a k1 of Some (HRef b) \<Rightarrow> heap_read h b k2 | _ \<Rightarrow> None)"

definition nested_write :: "heap \<Rightarrow> nat \<Rightarrow> string \<Rightarrow> string \<Rightarrow> hval \<Rightarrow> heap option" where
  "nested_write h a k1 k2 v =
     (case heap_read h a k1 of Some (HRef b) \<Rightarrow> Some (heap_write h b k2 v) | _ \<Rightarrow> None)"

section \<open>Auxiliary definitions for the proofs\<close>

text \<open>The equations of the two loops are unconditional and recursive; they are unfolded
  by hand.\<close>

declare batch_loop.simps [simp del]

declare batches_loop.simps [simp del]


section \<open>Interpolation inside the array\<close>










section \<open>Order of the percentiles\<close>





section \<open>The driver's loops\<close>











section \<open>The comparator's loop\<close>

lemma js_gt_guard:
  "(act \<noteq> Undefined \<and> js_gt act (Num l))
     = (case act of Num a \<Rightarrow> l < a | NaN \<Rightarrow> False | Undefined \<Rightarrow> False)"
  by (cases act) simp_all

lemma checkBudget_loop_eq:
  "checkBudget_loop m budget vs =
     vs @ map (\<lambda>(name, l). \<lparr> metric = name, actual = get_metric m name, limit = l \<rparr>)
            (filter (\<lambda>(name, l). case get_metric m name of
                                     Num a \<Rightarrow> l < a | NaN \<Rightarrow> False | Undefined \<Rightarrow> False)
               budget)"
proof (induction budget arbitrary: vs)
  case Nil
  then show ?case by simp
next
  case (Cons entry budget)
  obtain name l where entry: "entry = (name, l)" by (cases entry)
  show ?case
    unfolding entry
    by (simp add: Cons.IH js_gt_guard [symmetric] Let_def del: js_gt.simps)
qed

lemma checkBudget_loop_append:
  "checkBudget_loop m (xs @ ys) vs = checkBudget_loop m ys (checkBudget_loop m xs vs)"
  by (simp add: checkBudget_loop_eq)

lemma checkBudget_loop_acc:
  "checkBudget_loop m budget vs = vs @ checkBudget_loop m budget []"
  by (simp add: checkBudget_loop_eq)

lemma violations_checkBudget: "violations (checkBudget m budget) = checkBudget_loop m budget []"
  by (simp add: checkBudget_def Let_def)


lemma distinct_measurement_fields: "distinct (map fst measurement_fields)"
  by (simp add: measurement_fields_def)

lemma get_metric_field:
  assumes "(name, field) \<in> set measurement_fields"
  shows "get_metric m name = field m"
  using map_of_is_SomeI [OF distinct_measurement_fields assms] by (simp add: get_metric_def)

lemma get_metric_unknown:
  assumes "name \<notin> set (map fst measurement_fields)"
  shows "get_metric m name = Undefined"
proof -
  have "map_of measurement_fields name = None"
    using assms by (simp add: map_of_eq_None_iff)
  then show ?thesis by (simp add: get_metric_def)
qed

lemma violations_split:
  "violations (checkBudget m (before @ (name, l) # after)) =
     violations (checkBudget m before)
     @ (if get_metric m name \<noteq> Undefined \<and> js_gt (get_metric m name) (Num l)
        then [\<lparr> metric = name, actual = get_metric m name, limit = l \<rparr>] else [])
     @ violations (checkBudget m after)"
proof -
  have "checkBudget_loop m (before @ (name, l) # after) []
      = checkBudget_loop m after (checkBudget_loop m [(name, l)] (checkBudget_loop m before []))"
    using checkBudget_loop_append [of m before "[(name, l)] @ after" "[]"]
      checkBudget_loop_append [of m "[(name, l)]" after] by simp
  also have "\<dots> = checkBudget_loop m [(name, l)] (checkBudget_loop m before [])
                   @ checkBudget_loop m after []"
    by (rule checkBudget_loop_acc)
  also have "checkBudget_loop m [(name, l)] (checkBudget_loop m before [])
      = checkBudget_loop m before []
        @ (if get_metric m name \<noteq> Undefined \<and> js_gt (get_metric m name) (Num l)
           then [\<lparr> metric = name, actual = get_metric m name, limit = l \<rparr>] else [])"
    by (simp add: Let_def)
  finally show ?thesis by (simp add: violations_checkBudget)
qed

section \<open>Properties on the heap\<close>

lemma map_of_put_prop: "map_of (put_prop ps k v) = (map_of ps)(k \<mapsto> v)"
  by (induction ps) (auto simp: fun_eq_iff)

section \<open>The percentile estimator: claims\<close>








section \<open>The reducer and the driver: claims\<close>

text \<open>
  Claim C2, evaluated on the code. For the empty sample the five percentiles and the median
  are \<open>0\<close> and the count is \<open>0\<close>, but \<open>min\<close> and \<open>max\<close> are \<open>undefined\<close> (\<open>sorted[0]\<close> and
  \<open>sorted.at(-1)\<close> of the empty array) and \<open>mean\<close> is \<open>NaN\<close> (\<open>0 / 0\<close>). A run with
  \<open>requests = 0\<close> returns exactly this bundle.
\<close>

theorem statistics_empty_sample:
  "statistics [] =
     \<lparr> p50 = Num 0, p75 = Num 0, p90 = Num 0, p95 = Num 0, p99 = Num 0,
       min_field = Undefined, max_field = Undefined, mean = NaN, median = Num 0,
       count = Num 0 \<rparr>
   \<and> measureRoute net \<lparr> requests = Some 0, concurrency = None \<rparr> = Some (statistics [])"
  by (simp add: measureRoute_def statistics_def percentile_def js_index_def js_at_def
        batches_loop.simps Let_def)





section \<open>The budget comparator: claims\<close>


text \<open>
  Claim C6. The empty budget passes with no violations, and an entry whose metric name is
  not a property of the bundle raises no violation: wherever it stands in the budget, the
  result is the result of the budget without it.
\<close>

theorem checkBudget_empty_or_unknown:
  "checkBudget m [] = \<lparr> passed = True, violations = [] \<rparr>
   \<and> (name \<notin> set (map fst measurement_fields) \<longrightarrow>
        checkBudget m (before @ (name, l) # after) = checkBudget m (before @ after))"
proof -
  have "checkBudget m (before @ (name, l) # after) = checkBudget m (before @ after)"
    if "name \<notin> set (map fst measurement_fields)"
  proof -
    have "checkBudget_loop m (before @ (name, l) # after) [] = checkBudget_loop m (before @ after) []"
      using get_metric_unknown [OF that, of m]
      by (simp add: checkBudget_loop_append Let_def)
    then show ?thesis by (simp add: checkBudget_def)
  qed
  then show ?thesis by (simp add: checkBudget_def)
qed

theorem checkBudget_empty_or_unknown_witness:
  "checkBudget \<lparr> p50 = Num 10, p75 = Num 20, p90 = Num 30, p95 = Num 250, p99 = Num 600,
       min_field = Num 5, max_field = Num 700, mean = Num 25, median = Num 10,
       count = Num 100 \<rparr> [] = \<lparr> passed = True, violations = [] \<rparr>
   \<and> ''p59'' \<notin> set (map fst measurement_fields)
   \<and> checkBudget \<lparr> p50 = Num 10, p75 = Num 20, p90 = Num 30, p95 = Num 250, p99 = Num 600,
       min_field = Num 5, max_field = Num 700, mean = Num 25, median = Num 10,
       count = Num 100 \<rparr> [(''p59'', 1), (''p99'', 500)]
     = \<lparr> passed = False,
         violations = [\<lparr> metric = ''p99'', actual = Num 600, limit = 500 \<rparr>] \<rparr>"
proof -
  have h: "''p59'' \<notin> set (map fst measurement_fields)"
    by (simp add: measurement_fields_def)
  have v: "checkBudget \<lparr> p50 = Num 10, p75 = Num 20, p90 = Num 30, p95 = Num 250, p99 = Num 600,
       min_field = Num 5, max_field = Num 700, mean = Num 25, median = Num 10,
       count = Num 100 \<rparr> [(''p99'', 500)]
     = \<lparr> passed = False,
         violations = [\<lparr> metric = ''p99'', actual = Num 600, limit = 500 \<rparr>] \<rparr>"
    by (simp add: checkBudget_def get_metric_def measurement_fields_def Let_def)
  show ?thesis
    using h v
      checkBudget_empty_or_unknown [of "\<lparr> p50 = Num 10, p75 = Num 20, p90 = Num 30,
        p95 = Num 250, p99 = Num 600, min_field = Num 5, max_field = Num 700, mean = Num 25,
        median = Num 10, count = Num 100 \<rparr>" "''p59''" "[]" 1 "[(''p99'', 500)]"]
    by simp
qed

text \<open>
  Claim C10. An entry whose key names any of the ten properties of the bundle (the five
  percentiles, and also \<open>min\<close>, \<open>max\<close>, \<open>mean\<close>, \<open>median\<close> and \<open>count\<close>) is compared with
  its limit: it contributes its violation, at its place in the list, exactly when the
  property's value is strictly greater than the limit.
\<close>

theorem checkBudget_any_field:
  assumes "(name, field) \<in> set measurement_fields"
  shows "violations (checkBudget m (before @ (name, l) # after)) =
           violations (checkBudget m before)
           @ (if js_gt (field m) (Num l)
              then [\<lparr> metric = name, actual = field m, limit = l \<rparr>] else [])
           @ violations (checkBudget m after)
       \<and> map fst measurement_fields =
           [''p50'', ''p75'', ''p90'', ''p95'', ''p99'',
            ''min'', ''max'', ''mean'', ''median'', ''count'']"
proof -
  have g: "get_metric m name = field m" using assms by (rule get_metric_field)
  have u: "(field m \<noteq> Undefined \<and> js_gt (field m) (Num l)) = js_gt (field m) (Num l)"
    by (cases "field m") simp_all
  have "map fst measurement_fields =
           [''p50'', ''p75'', ''p90'', ''p95'', ''p99'',
            ''min'', ''max'', ''mean'', ''median'', ''count'']"
    by (simp add: measurement_fields_def)
  then show ?thesis
    using violations_split [of m before name l after] unfolding g u by simp
qed

theorem checkBudget_any_field_witness:
  "(''mean'', mean) \<in> set measurement_fields
   \<and> violations (checkBudget \<lparr> p50 = Num 10, p75 = Num 20, p90 = Num 30, p95 = Num 250,
       p99 = Num 600, min_field = Num 5, max_field = Num 700, mean = Num 25, median = Num 10,
       count = Num 100 \<rparr> [(''p95'', 300), (''mean'', 20), (''count'', 100)])
     = [\<lparr> metric = ''mean'', actual = Num 25, limit = 20 \<rparr>]"
proof -
  have h: "(''mean'', mean) \<in> set measurement_fields"
    by (simp add: measurement_fields_def)
  have b: "violations (checkBudget \<lparr> p50 = Num 10, p75 = Num 20, p90 = Num 30, p95 = Num 250,
       p99 = Num 600, min_field = Num 5, max_field = Num 700, mean = Num 25, median = Num 10,
       count = Num 100 \<rparr> [(''p95'', 300)]) = []"
    by (simp add: checkBudget_def get_metric_def measurement_fields_def Let_def)
  have a: "violations (checkBudget \<lparr> p50 = Num 10, p75 = Num 20, p90 = Num 30, p95 = Num 250,
       p99 = Num 600, min_field = Num 5, max_field = Num 700, mean = Num 25, median = Num 10,
       count = Num 100 \<rparr> [(''count'', 100)]) = []"
    by (simp add: checkBudget_def get_metric_def measurement_fields_def Let_def)
  show ?thesis
    using h a b
      checkBudget_any_field [OF h, of "\<lparr> p50 = Num 10, p75 = Num 20, p90 = Num 30,
        p95 = Num 250, p99 = Num 600, min_field = Num 5, max_field = Num 700, mean = Num 25,
        median = Num 10, count = Num 100 \<rparr>" "[(''p95'', 300)]" 20 "[(''count'', 100)]"]
    by simp
qed

section \<open>Budget definitions: claims\<close>

text \<open>
  Claim C7, as amended. \<open>defineBudget\<close> returns a new object with the same properties as
  its argument and leaves every existing object unchanged; the copy is independent at the
  top level only: setting a property of the copy is not seen through the original, and
  setting a property of the original is not seen through the copy.
\<close>

theorem defineBudget_shallow_copy:
  assumes "defineBudget h budgets = Some (copy, h')"
  shows "copy \<noteq> budgets \<and> \<not> copy < length h
       \<and> h' ! copy = h ! budgets
       \<and> (\<forall>a. a < length h \<longrightarrow> h' ! a = h ! a)
       \<and> heap_read (heap_write h' copy k v) copy k = Some v
       \<and> heap_read (heap_write h' copy k v) budgets k' = heap_read h budgets k'
       \<and> heap_read (heap_write h' budgets k v) budgets k = Some v
       \<and> heap_read (heap_write h' budgets k v) copy k' = heap_read h budgets k'"
proof -
  have b: "budgets < length h" and c: "copy = length h" and h': "h' = h @ [h ! budgets]"
    using assms by (auto simp: defineBudget_def split: if_splits)
  show ?thesis
    using b unfolding c h'
    by (simp add: heap_read_def heap_write_def nth_append map_of_put_prop list_update_append)
qed

theorem defineBudget_shallow_copy_witness:
  "defineBudget [[(''p95'', HNum 200)], [(''/api/users'', HRef 0)]] 1
     = Some (2, [[(''p95'', HNum 200)], [(''/api/users'', HRef 0)], [(''/api/users'', HRef 0)]])
   \<and> heap_read (heap_write
         [[(''p95'', HNum 200)], [(''/api/users'', HRef 0)], [(''/api/users'', HRef 0)]]
         2 ''/api/checkout'' (HNum 1)) 1 ''/api/checkout'' = None
   \<and> heap_read (heap_write
         [[(''p95'', HNum 200)], [(''/api/users'', HRef 0)], [(''/api/users'', HRef 0)]]
         2 ''/api/checkout'' (HNum 1)) 2 ''/api/checkout'' = Some (HNum 1)"
proof -
  have d: "defineBudget [[(''p95'', HNum 200)], [(''/api/users'', HRef 0)]] 1
     = Some (2, [[(''p95'', HNum 200)], [(''/api/users'', HRef 0)], [(''/api/users'', HRef 0)]])"
    by (simp add: defineBudget_def)
  have r: "heap_read [[(''p95'', HNum 200)], [(''/api/users'', HRef 0)]] 1 ''/api/checkout'' = None"
    by (simp add: heap_read_def)
  show ?thesis
    using d r defineBudget_shallow_copy [OF d, of "''/api/checkout''" "HNum 1" "''/api/checkout''"]
    by simp
qed

text \<open>
  Claim C7 as stated fails: the copy is shallow. With \<open>budgets = {'/api/users': {p95: 200}}\<close>
  the copy's entry refers to the same budget record as the original's, so after
  \<open>copy['/api/users'].p95 = 999\<close> the read \<open>budgets['/api/users'].p95\<close> gives \<open>999\<close>.
\<close>

theorem defineBudget_aliasing_counterexample:
  "defineBudget [[(''p95'', HNum 200)], [(''/api/users'', HRef 0)]] 1
     = Some (2, [[(''p95'', HNum 200)], [(''/api/users'', HRef 0)], [(''/api/users'', HRef 0)]])
   \<and> nested_read [[(''p95'', HNum 200)], [(''/api/users'', HRef 0)], [(''/api/users'', HRef 0)]]
         1 ''/api/users'' ''p95'' = Some (HNum 200)
   \<and> nested_write [[(''p95'', HNum 200)], [(''/api/users'', HRef 0)], [(''/api/users'', HRef 0)]]
         2 ''/api/users'' ''p95'' (HNum 999)
     = Some [[(''p95'', HNum 999)], [(''/api/users'', HRef 0)], [(''/api/users'', HRef 0)]]
   \<and> nested_read [[(''p95'', HNum 999)], [(''/api/users'', HRef 0)], [(''/api/users'', HRef 0)]]
         1 ''/api/users'' ''p95'' = Some (HNum 999)"
  by (simp add: defineBudget_def nested_read_def nested_write_def heap_read_def heap_write_def)

end
